theory Spec2Isabelle
  imports Main "HOL-Library.Sublist" "HOL-Library.Multiset"
begin

text \<open>
  The stock synchronisation of \<open>syncStocksML.js\<close>: the quantities that the ERP Manager+
  holds are written to the listings of Mercado Libre. The functions of the module are
  embedded below in the order of the file (quantity extraction, the product lookup, the
  catalog index, the sink update, the decision for one product, the chunked executor, the
  batch with its retries, the run over the whole catalog), followed by the handler of
  \<open>server.js\<close> that validates a batch. Remote calls take the state of the remote
  systems and return the next one; an exception is the \<open>Inl\<close> branch of a sum; a
  computation that may never return has an \<open>option\<close> result, \<open>None\<close> meaning that it
  does not return.
\<close>

section \<open>JavaScript values\<close>

text \<open>
  The payloads exchanged with Manager+ and Mercado Libre are JSON documents. A JavaScript
  value is modelled by the datatype below. Numbers are integers: the quantities handled by
  the engine are stock counts, and on integers inside the safe range the floating-point
  addition of the source is exact. \<open>NaN\<close> is not a value of the datatype; a computation
  that may yield \<open>NaN\<close> returns \<open>int option\<close> with \<open>None\<close> for \<open>NaN\<close>. An object is
  the list of its own properties, their names distinct.
\<close>

datatype js =
    JUndefined
  | JNull
  | JBool bool
  | JNum int
  | JStr string
  | JArr "js list"
  | JObj "(string \<times> js) list"

text \<open>Truthiness, as used by \<open>&&\<close>, \<open>||\<close>, \<open>!\<close> and \<open>if\<close>.\<close>

fun truthy :: "js \<Rightarrow> bool" where
  "truthy JUndefined = False"
| "truthy JNull = False"
| "truthy (JBool b) = b"
| "truthy (JNum n) = (n \<noteq> 0)"
| "truthy (JStr s) = (s \<noteq> [])"
| "truthy (JArr xs) = True"
| "truthy (JObj kvs) = True"

text \<open>\<open>a || b\<close> on values.\<close>

definition js_or :: "js \<Rightarrow> js \<Rightarrow> js" where
  "js_or a b = (if truthy a then a else b)"

text \<open>\<open>Array.isArray(v)\<close> and \<open>typeof v === 'object'\<close> (which holds of \<open>null\<close> and of arrays).\<close>

fun isArray :: "js \<Rightarrow> bool" where
  "isArray (JArr xs) = True"
| "isArray v = False"

fun typeof_object :: "js \<Rightarrow> bool" where
  "typeof_object JNull = True"
| "typeof_object (JArr xs) = True"
| "typeof_object (JObj kvs) = True"
| "typeof_object v = False"

text \<open>
  Property read \<open>v.k\<close> for the property names the engine reads (\<open>stock\<close>, \<open>saldo\<close>,
  \<open>data\<close>, ...): an object yields the stored value or \<open>undefined\<close>; numbers, strings,
  booleans and arrays have no such property; reading a property of \<open>null\<close> or
  \<open>undefined\<close> throws a \<open>TypeError\<close>, which is the \<open>Inl\<close> branch.
\<close>

definition typeError :: string where
  "typeError = ''TypeError: Cannot read properties of null or undefined''"

fun getProp :: "js \<Rightarrow> string \<Rightarrow> string + js" where
  "getProp JUndefined k = Inl typeError"
| "getProp JNull k = Inl typeError"
| "getProp (JObj kvs) k = Inr (case map_of kvs k of Some v \<Rightarrow> v | None \<Rightarrow> JUndefined)"
| "getProp v k = Inr JUndefined"

text \<open>
  \<open>parseFloat(v)\<close>. On a number it is the number. On any other argument the builtin
  converts the argument to a string and parses a decimal prefix; that part of the builtin
  is the parameter \<open>pf\<close> (\<open>None\<close> is \<open>NaN\<close>).
\<close>

definition parseFloat :: "(js \<Rightarrow> int option) \<Rightarrow> js \<Rightarrow> int option" where
  "parseFloat pf v = (case v of JNum n \<Rightarrow> Some n | _ \<Rightarrow> pf v)"

text \<open>\<open>x || 0\<close> on a number that may be \<open>NaN\<close>.\<close>

definition num_or_zero :: "int option \<Rightarrow> int" where
  "num_or_zero r = (case r of None \<Rightarrow> 0 | Some n \<Rightarrow> n)"

text \<open>A \<open>parseFloat\<close> that yields \<open>NaN\<close> on every argument that is not a number.\<close>

definition parseFloat_nan :: "js \<Rightarrow> int option" where
  "parseFloat_nan v = None"

section \<open>Source quantity: \<open>extractStockFromProduct\<close>\<close>

text \<open>
  The body of the inner \<open>forEach\<close>: an item that is truthy and of type object adds
  \<open>parseFloat(item.saldo || 0) || 0\<close> to the running total.
\<close>

definition addItem :: "(js \<Rightarrow> int option) \<Rightarrow> int \<Rightarrow> js \<Rightarrow> int" where
  "addItem pf stock item =
     (if truthy item \<and> typeof_object item then
        (case getProp item ''saldo'' of
           Inl e \<Rightarrow> stock
         | Inr s \<Rightarrow> stock + num_or_zero (parseFloat pf (js_or s (JNum 0))))
      else stock)"

text \<open>The body of the outer \<open>forEach\<close>: only a sub-array is traversed.\<close>

definition addSubArray :: "(js \<Rightarrow> int option) \<Rightarrow> int \<Rightarrow> js \<Rightarrow> int" where
  "addSubArray pf stock subArray =
     (case subArray of JArr items \<Rightarrow> foldl (addItem pf) stock items | _ \<Rightarrow> stock)"

definition extractStockFromProduct :: "(js \<Rightarrow> int option) \<Rightarrow> js \<Rightarrow> string + int" where
  "extractStockFromProduct pf product =
     (case getProp product ''stock'' of
        Inl e \<Rightarrow> Inl e
      | Inr st \<Rightarrow>
          (case st of
             JArr subs \<Rightarrow>
               if truthy st \<and> isArray st \<and> length subs > 0
               then Inr (foldl (addSubArray pf) 0 subs)
               else Inr 0
           | _ \<Rightarrow> Inr 0))"

section \<open>Strings\<close>

text \<open>\<open>s.includes(sub)\<close>: \<open>sub\<close> occurs in \<open>s\<close> as a contiguous block.\<close>

definition str_includes :: "string \<Rightarrow> string \<Rightarrow> bool" where
  "str_includes s sub = sublist sub s"

text \<open>The decimal digits of a number, as a template literal prints a status code.\<close>

definition digit :: "nat \<Rightarrow> char" where
  "digit d = char_of (d + 48)"

function show_nat :: "nat \<Rightarrow> string" where
  "show_nat n = (if n < 10 then [digit n] else show_nat (n div 10) @ [digit (n mod 10)])"
  by pat_completeness auto
termination
  by (relation "measure (\<lambda>n. n)") auto

section \<open>Data of the engine\<close>

text \<open>
  What \<open>getManagerProductBySKU\<close> returns. The engine reads the field \<open>stock\<close> only; the
  descriptive fields (\<open>nombre\<close>, \<open>unidad\<close>, \<open>precio\<close> and the echoed code) are left out.
\<close>

record manager_product =
  stock :: int
  rawData :: js

text \<open>A Mercado Libre listing as the items API returns it, with the fields the engine reads.\<close>

record ml_attr =
  attr_id :: string
  value_name :: "string option"

record ml_item =
  item_id :: string
  seller_custom_field :: "string option"
  attributes :: "ml_attr list option"
  available_quantity :: "int option"

text \<open>An entry of the products map (\<open>title\<close> and \<open>status\<close> are carried along, never read).\<close>

record ml_product =
  p_sku :: string
  itemId :: string
  currentStock :: int

text \<open>
  The products map is a JavaScript \<open>Map\<close>, which keeps its keys in insertion order: an
  association list, read by \<open>map_of\<close>, extended at the end.
\<close>

type_synonym ml_index = "(string \<times> ml_product) list"

datatype action = Updated | WouldUpdate | NoChange | Skipped | ErrorAction

text \<open>
  The object \<open>syncProductStock\<close> returns. A field that a branch does not set is \<open>None\<close>
  (\<open>undefined\<close>). The human-readable \<open>message\<close> is left out.
\<close>

record sync_result =
  sku :: string
  success :: bool
  action :: action
  error :: "string option"
  managerStock :: "int option"
  mlStock :: "int option"
  newStock :: "int option"

record run_result =
  total :: int
  updated :: int
  skipped :: int
  errors :: int
  noChange :: int
  details :: "sync_result list"

text \<open>
  The options object. \<open>dryRun\<close> and \<open>forceUpdate\<close> default to \<open>false\<close>; an absent
  \<open>concurrency\<close> or \<open>maxRetries\<close> is \<open>None\<close>. \<open>retryDelay\<close> only sets how long the run
  sleeps and is not part of the model.
\<close>

record options =
  dryRun :: bool
  forceUpdate :: bool
  concurrency :: "int option"
  maxRetries :: "int option"

section \<open>The remote systems\<close>

text \<open>
  A rejected HTTP call: \<open>error.response?.status\<close>, the \<open>retry-after\<close> header of the
  response, and \<open>error.message\<close>. A failure without a response (no network, no token)
  has no status.
\<close>

datatype http_error = HttpError (status: "nat option") (retryAfter: "string option") (message: string)

record ml_page =
  results :: "string list"
  paging_total :: int

text \<open>
  The remote systems are a state machine over a world \<open>'w\<close>: each operation returns the
  answer and the next world.
  \<^item> \<open>erpGet sku\<close>: \<open>getERPAuthToken\<close> followed by the GET of the product with
    \<open>con_stock=S\<close>; \<open>Inr\<close> carries \<open>response.data\<close>.
  \<^item> \<open>mlPut itemId quantity\<close>: \<open>getAccessToken\<close> followed by the PUT of
    \<open>available_quantity\<close>.
  \<^item> \<open>mlVerifyAuth\<close>: \<open>verifyMercadoLibreAuth\<close> of the authentication module; \<open>Inl\<close> is
    the message of the error it throws.
  \<^item> \<open>mlSession\<close>: \<open>getAccessToken\<close> and the user id at the start of a catalog load.
  \<^item> \<open>mlSearch offset\<close>: one page of the active items of the user.
  \<^item> \<open>mlGetItem itemId\<close>: the details of one item.
  \<^item> \<open>parseFloatOther\<close>: the builtin \<open>parseFloat\<close> on arguments that are not numbers.
  \<^item> \<open>latency w i sk\<close>: how long the remote systems take, in the world \<open>w\<close>, over the
    item \<open>sk\<close> at position \<open>i\<close> of a chunk of concurrent items; it fixes the order in
    which the items of the chunk complete.
\<close>

record 'w env =
  erpGet :: "string \<Rightarrow> 'w \<Rightarrow> (http_error + js) \<times> 'w"
  mlPut :: "string \<Rightarrow> int \<Rightarrow> 'w \<Rightarrow> (http_error + unit) \<times> 'w"
  mlVerifyAuth :: "'w \<Rightarrow> (string + unit) \<times> 'w"
  mlSession :: "'w \<Rightarrow> (string + unit) \<times> 'w"
  mlSearch :: "nat \<Rightarrow> 'w \<Rightarrow> (string + ml_page) \<times> 'w"
  mlGetItem :: "string \<Rightarrow> 'w \<Rightarrow> (string + ml_item) \<times> 'w"
  parseFloatOther :: "js \<Rightarrow> int option"
  latency :: "'w \<Rightarrow> nat \<Rightarrow> string \<Rightarrow> nat"

text \<open>What the run leaves behind: the remote calls it issued and the warnings it printed.\<close>

datatype call =
    ErpGet string
  | MlPut string int
  | MlVerifyAuth
  | MlSession
  | MlSearch nat
  | MlGetItem string
  | WarnCapped int
  | WarnHigh int

text \<open>
  The state of the process: the world of the remote systems, the module variable
  \<open>mlProductsCache\<close>, and the trace of calls and warnings so far.
\<close>

record 'w state =
  world :: 'w
  mlProductsCache :: "ml_index option"
  calls :: "call list"

definition remote :: "call \<Rightarrow> ('w \<Rightarrow> 'r \<times> 'w) \<Rightarrow> 'w state \<Rightarrow> 'r \<times> 'w state" where
  "remote c op s = (case op (world s) of (r, w') \<Rightarrow> (r, s\<lparr>world := w', calls := calls s @ [c]\<rparr>))"


section \<open>\<open>getManagerProductBySKU\<close>\<close>

text \<open>The \<open>try\<close> block after the response has arrived; \<open>Inl\<close> is a \<open>TypeError\<close> it throws.\<close>

definition managerBody :: "(js \<Rightarrow> int option) \<Rightarrow> js \<Rightarrow> string + manager_product option" where
  "managerBody pf d =
     (case getProp d ''data'' of
        Inl e \<Rightarrow> Inl e
      | Inr dd \<Rightarrow>
          (let productData = js_or dd d in
           if \<not> truthy productData \<or> (isArray productData \<and> productData = JArr []) then Inr None
           else
             (let product = (case productData of JArr (x # xs) \<Rightarrow> x | _ \<Rightarrow> productData) in
              case extractStockFromProduct pf product of
                Inl e \<Rightarrow> Inl e
              | Inr st \<Rightarrow> Inr (Some \<lparr>stock = st, rawData = product\<rparr>))))"

text \<open>The \<open>catch\<close> block: 404 is "not found", 429 and 5xx get their own message.\<close>

definition managerCatch :: "http_error \<Rightarrow> string + manager_product option" where
  "managerCatch e =
     (if status e = Some 404 then Inr None
      else if status e = Some 429 then
        Inl ''Rate limit alcanzado en Manager+ (429). Reduce la concurrencia.''
      else
        (case status e of
           Some n \<Rightarrow>
             if n \<ge> 500 then
               Inl (''Error del servidor Manager+ ('' @ show_nat n
                    @ ''). Puede estar sobrecargado.'')
             else Inl (message e)
         | None \<Rightarrow> Inl (message e)))"

definition getManagerProductBySKU ::
  "'w env \<Rightarrow> string \<Rightarrow> 'w state \<Rightarrow> (string + manager_product option) \<times> 'w state" where
  "getManagerProductBySKU env sk s =
     (case remote (ErpGet sk) (erpGet env sk) s of
        (Inl e, s1) \<Rightarrow> (managerCatch e, s1)
      | (Inr d, s1) \<Rightarrow>
          (case managerBody (parseFloatOther env) d of
             Inl msg \<Rightarrow> (managerCatch (HttpError None None msg), s1)
           | Inr r \<Rightarrow> (Inr r, s1)))"

section \<open>The catalog index: \<open>loadAllMercadoLibreProducts\<close>\<close>

definition truthyStr :: "string option \<Rightarrow> bool" where
  "truthyStr v = (case v of None \<Rightarrow> False | Some x \<Rightarrow> x \<noteq> [])"

definition resolveSkuFromMLItem :: "ml_item \<Rightarrow> string option" where
  "resolveSkuFromMLItem item =
     (if truthyStr (seller_custom_field item) then seller_custom_field item
      else
        (case attributes item of
           None \<Rightarrow> None
         | Some attrs \<Rightarrow>
             (case find (\<lambda>attr. attr_id attr = ''SELLER_SKU'' \<or> attr_id attr = ''SELLER_SKU_ID'') attrs of
                None \<Rightarrow> None
              | Some skuAttr \<Rightarrow>
                  if truthyStr (value_name skuAttr) then value_name skuAttr else None)))"

text \<open>
  The body of the loop over the item ids of a page: a failed fetch and an item without
  SKU are passed over; a SKU already in the map keeps its first entry.
\<close>

definition fetchItem :: "'w env \<Rightarrow> ml_index \<times> 'w state \<Rightarrow> string \<Rightarrow> ml_index \<times> 'w state" where
  "fetchItem env acc iid =
     (case acc of (productMap, s) \<Rightarrow>
        (case remote (MlGetItem iid) (mlGetItem env iid) s of
           (Inl msg, s1) \<Rightarrow> (productMap, s1)
         | (Inr item, s1) \<Rightarrow>
             (case resolveSkuFromMLItem item of
                None \<Rightarrow> (productMap, s1)
              | Some sk \<Rightarrow>
                  if map_of productMap sk = None then
                    (productMap @
                       [(sk, \<lparr>p_sku = sk, itemId = item_id item,
                              currentStock = (case available_quantity item of
                                                None \<Rightarrow> 0 | Some q \<Rightarrow> q)\<rparr>)], s1)
                  else (productMap, s1))))"

text \<open>
  The \<open>while (hasMore)\<close> loop. It ends on an empty page, on a short page, or when the
  offset reaches the reported total; a remote that keeps answering full pages below the
  total keeps it running, so the loop is a partial function (\<open>None\<close>: it never returns).
\<close>

partial_function (option) pageLoop ::
  "'w env \<Rightarrow> nat \<Rightarrow> ml_index \<Rightarrow> 'w state \<Rightarrow> ((string + ml_index) \<times> 'w state) option" where
  "pageLoop env offset productMap s =
     (case remote (MlSearch offset) (mlSearch env offset) s of
        (Inl msg, s1) \<Rightarrow> Some (Inl msg, s1)
      | (Inr page, s1) \<Rightarrow>
          (if results page = [] then Some (Inr productMap, s1)
           else
             (case foldl (fetchItem env) (productMap, s1) (results page) of
                (productMap2, s2) \<Rightarrow>
                  if int offset + int (length (results page)) \<ge> paging_total page
                     \<or> length (results page) < 50
                  then Some (Inr productMap2, s2)
                  else pageLoop env (offset + 50) productMap2 s2)))"

definition loadAllMercadoLibreProducts ::
  "'w env \<Rightarrow> 'w state \<Rightarrow> ((string + ml_index) \<times> 'w state) option" where
  "loadAllMercadoLibreProducts env s =
     (case mlProductsCache s of
        Some m \<Rightarrow> Some (Inr m, s)
      | None \<Rightarrow>
          (case remote MlSession (mlSession env) s of
             (Inl msg, s1) \<Rightarrow> Some (Inl msg, s1)
           | (Inr u, s1) \<Rightarrow>
               (case pageLoop env 0 [] s1 of
                  None \<Rightarrow> None
                | Some (Inl msg, s2) \<Rightarrow> Some (Inl msg, s2)
                | Some (Inr m, s2) \<Rightarrow> Some (Inr m, s2\<lparr>mlProductsCache := Some m\<rparr>))))"

section \<open>\<open>updateMercadoLibreStock\<close>\<close>

definition updateCatch :: "http_error \<Rightarrow> string" where
  "updateCatch e =
     (if status e = Some 429 then
        (if truthyStr (retryAfter e) then
           ''Rate limit de Mercado Libre alcanzado. Espera ''
             @ (case retryAfter e of Some ra \<Rightarrow> ra | None \<Rightarrow> [])
             @ '' segundos antes de continuar.''
         else ''Rate limit de Mercado Libre alcanzado (429). Reduce la concurrencia o espera un momento.'')
      else
        (case status e of
           Some n \<Rightarrow>
             if n \<ge> 500 then
               ''Error del servidor Mercado Libre ('' @ show_nat n
                 @ ''). Puede estar sobrecargado.''
             else message e
         | None \<Rightarrow> message e))"

definition updateMercadoLibreStock ::
  "'w env \<Rightarrow> string \<Rightarrow> int \<Rightarrow> 'w state \<Rightarrow> (string + unit) \<times> 'w state" where
  "updateMercadoLibreStock env iid quantity s =
     (case remote (MlPut iid quantity) (mlPut env iid quantity) s of
        (Inl e, s1) \<Rightarrow> (Inl (updateCatch e), s1)
      | (Inr u, s1) \<Rightarrow> (Inr u, s1))"

section \<open>\<open>syncProductStock\<close>\<close>

text \<open>With a map given the lookup is local; without one the catalog is loaded first.\<close>

definition getMercadoLibreProductStockBySKU ::
  "'w env \<Rightarrow> string \<Rightarrow> ml_index option \<Rightarrow> 'w state
     \<Rightarrow> ((string + ml_product option) \<times> 'w state) option" where
  "getMercadoLibreProductStockBySKU env sk productsMap s =
     (case productsMap of
        Some m \<Rightarrow> Some (Inr (map_of m sk), s)
      | None \<Rightarrow>
          (case loadAllMercadoLibreProducts env s of
             None \<Rightarrow> None
           | Some (Inl msg, s1) \<Rightarrow> Some (Inl msg, s1)
           | Some (Inr m, s1) \<Rightarrow> Some (Inr (map_of m sk), s1)))"

text \<open>\<open>parseInt\<close> on an integer inside the safe range is the integer.\<close>

definition parseInt :: "int \<Rightarrow> int option" where
  "parseInt n = Some n"

definition errorResult :: "string \<Rightarrow> string \<Rightarrow> sync_result" where
  "errorResult sk msg =
     \<lparr>sku = sk, success = False, action = ErrorAction, error = Some msg,
      managerStock = None, mlStock = None, newStock = None\<rparr>"

definition skippedResult :: "string \<Rightarrow> string \<Rightarrow> sync_result" where
  "skippedResult sk msg =
     \<lparr>sku = sk, success = False, action = Skipped, error = Some msg,
      managerStock = None, mlStock = None, newStock = None\<rparr>"

definition noChangeResult :: "string \<Rightarrow> int \<Rightarrow> int \<Rightarrow> sync_result" where
  "noChangeResult sk ms mls =
     \<lparr>sku = sk, success = True, action = NoChange, error = None,
      managerStock = Some ms, mlStock = Some mls, newStock = None\<rparr>"

definition wouldUpdateResult :: "string \<Rightarrow> int \<Rightarrow> int \<Rightarrow> sync_result" where
  "wouldUpdateResult sk ms mls =
     \<lparr>sku = sk, success = True, action = WouldUpdate, error = None,
      managerStock = Some ms, mlStock = Some mls, newStock = Some ms\<rparr>"

definition updatedResult :: "string \<Rightarrow> int \<Rightarrow> int \<Rightarrow> sync_result" where
  "updatedResult sk ms mls =
     \<lparr>sku = sk, success = True, action = Updated, error = None,
      managerStock = Some ms, mlStock = Some mls, newStock = Some ms\<rparr>"

text \<open>
  \<open>syncProductStock\<close> never throws: every failure becomes a result object. It fails to
  return only when it has to load the catalog and that load never ends.
\<close>

definition syncProductStock ::
  "'w env \<Rightarrow> string \<Rightarrow> options \<Rightarrow> ml_index option \<Rightarrow> 'w state
     \<Rightarrow> (sync_result \<times> 'w state) option" where
  "syncProductStock env sk opts mlProductsMap s =
     (case getManagerProductBySKU env sk s of
        (Inl msg, s1) \<Rightarrow> Some (errorResult sk msg, s1)
      | (Inr None, s1) \<Rightarrow> Some (skippedResult sk ''Producto no encontrado en Manager+'', s1)
      | (Inr (Some managerProduct), s1) \<Rightarrow>
          (case getMercadoLibreProductStockBySKU env sk mlProductsMap s1 of
             None \<Rightarrow> None
           | Some (Inl msg, s2) \<Rightarrow> Some (errorResult sk msg, s2)
           | Some (Inr None, s2) \<Rightarrow>
               Some (skippedResult sk ''Producto no encontrado en Mercado Libre'', s2)
           | Some (Inr (Some mlProduct), s2) \<Rightarrow>
               (let mgrStock = num_or_zero (parseInt (stock managerProduct));
                    mlSt = currentStock mlProduct in
                if mgrStock = mlSt \<and> \<not> forceUpdate opts then
                  Some (noChangeResult sk mgrStock mlSt, s2)
                else if dryRun opts then
                  Some (wouldUpdateResult sk mgrStock mlSt, s2)
                else
                  (case updateMercadoLibreStock env (itemId mlProduct) mgrStock s2 of
                     (Inl msg, s3) \<Rightarrow> Some (errorResult sk msg, s3)
                   | (Inr u, s3) \<Rightarrow> Some (updatedResult sk mgrStock mlSt, s3)))))"

section \<open>\<open>processInParallel\<close>\<close>

text \<open>\<open>array.slice(start, end)\<close>: a negative bound counts from the end.\<close>

definition js_slice :: "'a list \<Rightarrow> int \<Rightarrow> int \<Rightarrow> 'a list" where
  "js_slice xs start fin =
     (let n = int (length xs);
          from = (if start < 0 then max (n + start) 0 else min start n);
          to = (if fin < 0 then max (n + fin) 0 else min fin n)
      in take (nat (to - from)) (drop (nat from) xs))"

text \<open>
  \<open>Promise.all(chunk.map(processor))\<close>. Every processor of the chunk is started, and they
  complete in an order that the code does not control. Here each processor runs to its end
  in one piece, and the processors of a chunk run in the order of their latencies (items
  of equal latency in the order of the chunk). \<open>settle\<close> runs them in that order and keeps
  each outcome with the position of its item.
\<close>

fun settle ::
  "('a \<Rightarrow> 's \<Rightarrow> ((string + 'r) \<times> 's) option) \<Rightarrow> (nat \<times> 'a) list \<Rightarrow> 's
     \<Rightarrow> ((nat \<times> (string + 'r)) list \<times> 's) option" where
  "settle processor [] s = Some ([], s)"
| "settle processor (ix # rest) s =
     (case processor (snd ix) s of
        None \<Rightarrow> None
      | Some (r, s1) \<Rightarrow>
          (case settle processor rest s1 of
             None \<Rightarrow> None
           | Some (rs, s2) \<Rightarrow> Some ((fst ix, r) # rs, s2)))"

text \<open>The first rejection among outcomes listed in the order of completion.\<close>

fun firstRejection :: "(string + 'r) list \<Rightarrow> string option" where
  "firstRejection [] = None"
| "firstRejection (Inl e # rs) = Some e"
| "firstRejection (Inr v # rs) = firstRejection rs"

text \<open>The values of the fulfilled outcomes of a list.\<close>

fun fulfilled :: "(string + 'r) list \<Rightarrow> 'r list" where
  "fulfilled [] = []"
| "fulfilled (Inl e # rs) = fulfilled rs"
| "fulfilled (Inr v # rs) = v # fulfilled rs"

text \<open>
  The promise that \<open>Promise.all\<close> returns rejects with the first rejection, and otherwise
  is fulfilled with the values in the order of the chunk, whatever the order of completion.
\<close>

definition promiseAll ::
  "(nat \<Rightarrow> 'a \<Rightarrow> nat) \<Rightarrow> ('a \<Rightarrow> 's \<Rightarrow> ((string + 'r) \<times> 's) option) \<Rightarrow> 'a list \<Rightarrow> 's
     \<Rightarrow> ((string + 'r list) \<times> 's) option" where
  "promiseAll lat processor chunk s =
     (case settle processor (sort_key (\<lambda>ix. lat (fst ix) (snd ix)) (enumerate 0 chunk)) s of
        None \<Rightarrow> None
      | Some (settled, s1) \<Rightarrow>
          (case firstRejection (map snd settled) of
             Some e \<Rightarrow> Some (Inl e, s1)
           | None \<Rightarrow> Some (Inr (fulfilled (map snd (sort_key fst settled))), s1)))"

text \<open>
  The \<open>for\<close> loop over the chunks, \<open>i\<close> advancing by \<open>concurrency\<close>. A rejected chunk
  whose message contains \<open>Rate limit\<close> is dropped and the loop goes on; any other
  rejection leaves the loop. With a step that is not positive \<open>i\<close> never reaches the
  length of the array, so the loop is a partial function. The count of rate-limit errors
  kept by the loop only prints a warning and is left out. \<open>lat s\<close> gives the latencies
  of a chunk started in the state \<open>s\<close>.
\<close>

partial_function (option) chunkLoop ::
  "('s \<Rightarrow> nat \<Rightarrow> 'a \<Rightarrow> nat) \<Rightarrow> 'a list \<Rightarrow> ('a \<Rightarrow> 's \<Rightarrow> ((string + 'r) \<times> 's) option) \<Rightarrow> int
     \<Rightarrow> int \<Rightarrow> 'r list \<Rightarrow> 's \<Rightarrow> ((string + 'r list) \<times> 's) option" where
  "chunkLoop lat array processor conc i res s =
     (if i < int (length array) then
        (case promiseAll (lat s) processor (js_slice array i (i + conc)) s of
           None \<Rightarrow> None
         | Some (Inr chunkResults, s1) \<Rightarrow>
             chunkLoop lat array processor conc (i + conc) (res @ chunkResults) s1
         | Some (Inl msg, s1) \<Rightarrow>
             if msg \<noteq> [] \<and> str_includes msg ''Rate limit''
             then chunkLoop lat array processor conc (i + conc) res s1
             else Some (Inl msg, s1))
      else Some (Inr res, s))"

definition processInParallel ::
  "('s \<Rightarrow> nat \<Rightarrow> 'a \<Rightarrow> nat) \<Rightarrow> 'a list \<Rightarrow> ('a \<Rightarrow> 's \<Rightarrow> ((string + 'r) \<times> 's) option) \<Rightarrow> int
     \<Rightarrow> 's \<Rightarrow> ((string + 'r list) \<times> 's) option" where
  "processInParallel lat array processor conc s = chunkLoop lat array processor conc 0 [] s"

section \<open>\<open>syncMultipleProducts\<close>\<close>

text \<open>\<open>options.concurrency || 5\<close>: an absent value and \<open>0\<close> both give the default.\<close>

definition requestedConcurrency :: "options \<Rightarrow> int" where
  "requestedConcurrency opts =
     (case concurrency opts of None \<Rightarrow> 5 | Some c \<Rightarrow> if c = 0 then 5 else c)"

text \<open>
  The limit on the concurrency: above \<open>ABSOLUTE_MAX_CONCURRENCY = 50\<close> the value becomes
  50 and a warning is printed; above \<open>MAX_RECOMMENDED_CONCURRENCY = 20\<close> another warning
  is printed and the value stays. The pair is the concurrency in force and the warnings.
\<close>

definition limitConcurrency :: "int \<Rightarrow> int \<times> call list" where
  "limitConcurrency c =
     (if c > 50 then (50, [WarnCapped c])
      else if c > 20 then (c, [WarnHigh c])
      else (c, []))"

text \<open>The body of \<open>results.details.forEach\<close> that fills the counters.\<close>

definition countResult :: "run_result \<Rightarrow> sync_result \<Rightarrow> run_result" where
  "countResult rr r =
     (if success r then
        (if action r = Updated \<or> action r = WouldUpdate then rr\<lparr>updated := updated rr + 1\<rparr>
         else if action r = NoChange then rr\<lparr>noChange := noChange rr + 1\<rparr>
         else rr\<lparr>skipped := skipped rr + 1\<rparr>)
      else rr\<lparr>errors := errors rr + 1\<rparr>)"

text \<open>The filter that selects the results to retry.\<close>

definition retryable :: "sync_result \<Rightarrow> bool" where
  "retryable r =
     (\<not> success r \<and> action r = ErrorAction \<and>
      (case error r of
         None \<Rightarrow> False
       | Some msg \<Rightarrow>
           msg \<noteq> [] \<and> \<not> str_includes msg ''no encontrado'' \<and> \<not> str_includes msg ''skipped''))"

text \<open>
  The processor handed to \<open>processInParallel\<close>, in the first pass and in the retries:
  \<open>syncProductStock\<close> with the preloaded map. Its own \<open>catch\<close> is never entered, since
  \<open>syncProductStock\<close> does not throw.
\<close>

definition syncProcessor ::
  "'w env \<Rightarrow> options \<Rightarrow> ml_index \<Rightarrow> string \<Rightarrow> 'w state
     \<Rightarrow> ((string + sync_result) \<times> 'w state) option" where
  "syncProcessor env opts mlProductsMap sk s =
     (case syncProductStock env sk opts (Some mlProductsMap) s of
        None \<Rightarrow> None
      | Some (r, s1) \<Rightarrow> Some (Inr r, s1))"

text \<open>The latencies of a chunk that starts in the state \<open>s\<close>.\<close>

definition chunkLatency :: "'w env \<Rightarrow> 'w state \<Rightarrow> nat \<Rightarrow> string \<Rightarrow> nat" where
  "chunkLatency env s = latency env (world s)"

text \<open>\<open>xs.findIndex(P)\<close>, with \<open>None\<close> for \<open>-1\<close>.\<close>

fun findIndex :: "('a \<Rightarrow> bool) \<Rightarrow> 'a list \<Rightarrow> nat option" where
  "findIndex P [] = None"
| "findIndex P (x # xs) = (if P x then Some 0 else map_option Suc (findIndex P xs))"

text \<open>The body of \<open>retryProcessedResults.forEach\<close>: splice one retry result back.\<close>

definition applyRetry :: "run_result \<Rightarrow> sync_result \<Rightarrow> run_result" where
  "applyRetry rr retryResult =
     (case findIndex (\<lambda>r. sku r = sku retryResult) (details rr) of
        None \<Rightarrow> rr
      | Some originalIndex \<Rightarrow>
          (let originalResult = details rr ! originalIndex;
               wasError = (\<not> success originalResult \<and> action originalResult = ErrorAction);
               rr1 = rr\<lparr>details := (details rr)[originalIndex := retryResult]\<rparr>
           in if success retryResult \<and> wasError then
                (let rr2 = rr1\<lparr>errors := errors rr1 - 1\<rparr> in
                 if action retryResult = Updated \<or> action retryResult = WouldUpdate
                 then rr2\<lparr>updated := updated rr2 + 1\<rparr>
                 else if action retryResult = NoChange then rr2\<lparr>noChange := noChange rr2 + 1\<rparr>
                 else if action retryResult = Skipped then rr2\<lparr>skipped := skipped rr2 + 1\<rparr>
                 else rr2)
              else rr1))"

text \<open>
  The \<open>while\<close> loop of the retries. The concurrency of a retry is
  \<open>Math.max(2, Math.floor(concurrency / 2))\<close>. The loop ends because \<open>retryAttempt\<close>
  grows up to \<open>maxRetries\<close>.
\<close>

function retryLoop ::
  "'w env \<Rightarrow> options \<Rightarrow> ml_index \<Rightarrow> int \<Rightarrow> int \<Rightarrow> int \<Rightarrow> sync_result list \<Rightarrow> run_result
     \<Rightarrow> 'w state \<Rightarrow> ((string + run_result) \<times> 'w state) option" where
  "retryLoop env opts mlProductsMap conc maxR retryAttempt remainingFailures rr s =
     (if remainingFailures \<noteq> [] \<and> retryAttempt \<le> maxR then
        (case processInParallel (chunkLatency env) (map sku remainingFailures)
                (syncProcessor env opts mlProductsMap) (max 2 (conc div 2)) s of
           None \<Rightarrow> None
         | Some (Inl msg, s1) \<Rightarrow> Some (Inl msg, s1)
         | Some (Inr retryProcessedResults, s1) \<Rightarrow>
             retryLoop env opts mlProductsMap conc maxR (retryAttempt + 1)
               (filter retryable retryProcessedResults)
               (foldl applyRetry rr retryProcessedResults) s1)
      else Some (Inr rr, s))"
  by pat_completeness auto
termination
  by (relation "measure (\<lambda>(env, opts, m, c, maxR, a, rem, rr, s). nat (maxR + 1 - a))") auto

definition initialResults :: "string list \<Rightarrow> run_result" where
  "initialResults skus =
     \<lparr>total = int (length skus), updated = 0, skipped = 0, errors = 0, noChange = 0,
      details = []\<rparr>"

text \<open>
  \<open>Inl\<close> is the message of the error the function throws (an error of the authentication,
  of the catalog load, or one that leaves \<open>processInParallel\<close>).
\<close>

definition syncMultipleProducts ::
  "'w env \<Rightarrow> string list \<Rightarrow> options \<Rightarrow> 'w state \<Rightarrow> ((string + run_result) \<times> 'w state) option" where
  "syncMultipleProducts env skus opts s =
     (case limitConcurrency (requestedConcurrency opts) of
        (conc, warnings) \<Rightarrow>
          (case remote MlVerifyAuth (mlVerifyAuth env) (s\<lparr>calls := calls s @ warnings\<rparr>) of
             (Inl msg, s1) \<Rightarrow> Some (Inl msg, s1)
           | (Inr u, s1) \<Rightarrow>
               (case loadAllMercadoLibreProducts env s1 of
                  None \<Rightarrow> None
                | Some (Inl msg, s2) \<Rightarrow> Some (Inl msg, s2)
                | Some (Inr mlProductsMap, s2) \<Rightarrow>
                    (case processInParallel (chunkLatency env) skus
                            (syncProcessor env opts mlProductsMap) conc s2 of
                       None \<Rightarrow> None
                     | Some (Inl msg, s3) \<Rightarrow> Some (Inl msg, s3)
                     | Some (Inr processedResults, s3) \<Rightarrow>
                         (let rr = foldl countResult
                                     ((initialResults skus)\<lparr>details := processedResults\<rparr>)
                                     processedResults;
                              failedProducts = filter retryable (details rr)
                          in if failedProducts \<noteq> [] \<and> \<not> dryRun opts then
                               retryLoop env opts mlProductsMap conc
                                 (case maxRetries opts of None \<Rightarrow> 3 | Some m \<Rightarrow> m)
                                 1 failedProducts rr s3
                             else Some (Inr rr, s3))))))"

section \<open>\<open>syncAllProducts\<close>\<close>

definition noSkuMessage :: string where
  "noSkuMessage =
     ''No hay publicaciones con SKU configurado en Mercado Libre. Configura seller_custom_field o el atributo SELLER_SKU para cada publicaci''
     @ [CHR 0xF3] @ ''n.''"

definition syncAllProducts ::
  "'w env \<Rightarrow> options \<Rightarrow> 'w state \<Rightarrow> ((string + run_result) \<times> 'w state) option" where
  "syncAllProducts env opts s =
     (case loadAllMercadoLibreProducts env s of
        None \<Rightarrow> None
      | Some (Inl msg, s1) \<Rightarrow> Some (Inl msg, s1)
      | Some (Inr mlProductsMap, s1) \<Rightarrow>
          (let skus = map fst mlProductsMap in
           if length skus = 0 then Some (Inl noSkuMessage, s1)
           else syncMultipleProducts env skus opts s1))"

section \<open>The handler of \<open>POST /api/sync/stocks\<close>\<close>




section \<open>Notions used to state the properties\<close>





text \<open>
  \<open>resultFor sk r\<close>: \<open>r\<close> is a result for the identifier \<open>sk\<close>, and a successful result
  is an update, a simulated update or a no-change.
\<close>

definition resultFor :: "string \<Rightarrow> sync_result \<Rightarrow> bool" where
  "resultFor sk r =
     (sku r = sk \<and> (success r \<longrightarrow> action r = Updated \<or> action r = WouldUpdate \<or> action r = NoChange))"

definition counted :: "run_result \<Rightarrow> int" where
  "counted rr = updated rr + noChange rr + skipped rr + errors rr"

text \<open>
  \<open>issuedOnly P s s'\<close>: from \<open>s\<close> to \<open>s'\<close> the trace grew, and every new entry
  satisfies \<open>P\<close>.
\<close>

definition issuedOnly :: "(call \<Rightarrow> bool) \<Rightarrow> 'w state \<Rightarrow> 'w state \<Rightarrow> bool" where
  "issuedOnly P s s' = (\<exists>new. calls s' = calls s @ new \<and> list_all P new)"




section \<open>A concrete remote for the examples\<close>

text \<open>
  One listing \<open>MLC1\<close> with SKU \<open>A\<close> at Mercado Libre, whose quantity the world records;
  Manager+ answers its \<open>n\<close>-th request with \<open>resp n\<close>. The items of a chunk complete
  in the reverse of their order in the chunk.
\<close>

record test_world =
  erpCalls :: nat
  sinkQty :: int

definition stockPayload :: "int \<Rightarrow> js" where
  "stockPayload q = JObj [(''codigo_prod'', JStr ''A''), (''stock'', JArr [JArr [JObj [(''saldo'', JNum q)]]])]"

definition testErpGet :: "(nat \<Rightarrow> http_error + js) \<Rightarrow> string \<Rightarrow> test_world \<Rightarrow> (http_error + js) \<times> test_world" where
  "testErpGet resp sk w = (resp (erpCalls w), w\<lparr>erpCalls := erpCalls w + 1\<rparr>)"

definition testMlPut :: "string \<Rightarrow> int \<Rightarrow> test_world \<Rightarrow> (http_error + unit) \<times> test_world" where
  "testMlPut iid q w = (Inr (), w\<lparr>sinkQty := q\<rparr>)"

definition testOk :: "test_world \<Rightarrow> (string + unit) \<times> test_world" where
  "testOk w = (Inr (), w)"

definition testMlSearch :: "string list \<Rightarrow> nat \<Rightarrow> test_world \<Rightarrow> (string + ml_page) \<times> test_world" where
  "testMlSearch ids off w =
     (Inr \<lparr>results = (if off = 0 then ids else []), paging_total = int (length ids)\<rparr>, w)"

definition testMlGetItem :: "string \<Rightarrow> test_world \<Rightarrow> (string + ml_item) \<times> test_world" where
  "testMlGetItem iid w =
     (Inr \<lparr>item_id = iid, seller_custom_field = Some ''A'', attributes = None,
           available_quantity = Some (sinkQty w)\<rparr>, w)"

definition testLatency :: "test_world \<Rightarrow> nat \<Rightarrow> string \<Rightarrow> nat" where
  "testLatency w i sk = 100 - i"

definition testEnv :: "(nat \<Rightarrow> http_error + js) \<Rightarrow> string list \<Rightarrow> test_world env" where
  "testEnv resp ids =
     \<lparr>erpGet = testErpGet resp, mlPut = testMlPut, mlVerifyAuth = testOk, mlSession = testOk,
      mlSearch = testMlSearch ids, mlGetItem = testMlGetItem, parseFloatOther = parseFloat_nan,
      latency = testLatency\<rparr>"

definition steady7 :: "nat \<Rightarrow> http_error + js" where
  "steady7 n = Inr (stockPayload 7)"

definition rateLimitThenStock :: "nat \<Rightarrow> http_error + js" where
  "rateLimitThenStock n =
     (if n = 0 then Inl (HttpError (Some 429) None ''Request failed with status code 429'')
      else Inr (stockPayload 7))"

definition rateLimitThenGone :: "nat \<Rightarrow> http_error + js" where
  "rateLimitThenGone n =
     (if n = 0 then Inl (HttpError (Some 429) None ''Request failed with status code 429'')
      else Inl (HttpError (Some 404) None ''Request failed with status code 404''))"

definition testState :: "int \<Rightarrow> test_world state" where
  "testState q = \<lparr>world = \<lparr>erpCalls = 0, sinkQty = q\<rparr>, mlProductsCache = None, calls = []\<rparr>"

definition testIndex :: "int \<Rightarrow> ml_index" where
  "testIndex q = [(''A'', \<lparr>p_sku = ''A'', itemId = ''MLC1'', currentStock = q\<rparr>)]"

definition testOpts :: options where
  "testOpts = \<lparr>dryRun = False, forceUpdate = False, concurrency = None, maxRetries = None\<rparr>"

definition dryOpts :: options where
  "dryOpts = \<lparr>dryRun = True, forceUpdate = False, concurrency = None, maxRetries = None\<rparr>"

definition opts200 :: options where
  "opts200 = \<lparr>dryRun = False, forceUpdate = False, concurrency = Some 200, maxRetries = None\<rparr>"

declare retryLoop.simps [simp del]
declare pageLoop.simps [code]
declare chunkLoop.simps [code]

section \<open>Lemmas\<close>

lemmas test_defs = testEnv_def testLatency_def testErpGet_def testMlPut_def testOk_def testMlSearch_def
  testMlGetItem_def steady7_def rateLimitThenGone_def rateLimitThenStock_def dryOpts_def opts200_def testState_def testIndex_def testOpts_def
  stockPayload_def


subsection \<open>Quantity extraction\<close>







subsection \<open>One product\<close>




lemma syncProductStock_resultFor:
  "syncProductStock env sk opts m s = Some (r, s') \<Longrightarrow> resultFor sk r"
  by (auto simp add: syncProductStock_def resultFor_def errorResult_def skippedResult_def
      noChangeResult_def wouldUpdateResult_def updatedResult_def Let_def
      split: prod.splits sum.splits option.splits if_splits)

lemma syncProcessor_resultFor:
  "syncProcessor env opts m sk s = Some (r, s') \<Longrightarrow> \<exists>v. r = Inr v \<and> resultFor sk v"
  by (auto simp add: syncProcessor_def split: option.splits dest: syncProductStock_resultFor)

subsection \<open>The chunk loop\<close>

lemma settle_outcomes:
  assumes proc: "\<And>x t r t'. proc x t = Some (r, t') \<Longrightarrow> \<exists>v. r = Inr v \<and> R x v"
  shows "settle proc ixs s = Some (settled, s') \<Longrightarrow>
           list_all2 (\<lambda>ix jr. fst jr = fst ix \<and> (\<exists>v. snd jr = Inr v \<and> R (snd ix) v)) ixs settled"
proof (induction ixs arbitrary: s settled)
  case Nil
  then show ?case by simp
next
  case (Cons ix rest)
  from Cons.prems obtain r s1 rs where
    p: "proc (snd ix) s = Some (r, s1)" and q: "settle proc rest s1 = Some (rs, s')"
    and o: "settled = (fst ix, r) # rs"
    by (auto split: option.splits prod.splits)
  from proc [OF p] obtain v where "r = Inr v" "R (snd ix) v" by blast
  with Cons.IH [OF q] o show ?case by simp
qed

lemma firstRejection_none:
  "\<forall>r\<in>set rs. \<exists>v. r = Inr v \<Longrightarrow> firstRejection rs = None"
  by (induction rs rule: firstRejection.induct) auto

lemma fulfilled_values:
  "list_all2 (\<lambda>x r. \<exists>v. r = Inr v \<and> R x v) xs rs \<Longrightarrow> list_all2 R xs (fulfilled rs)"
  by (induction rule: list_all2_induct) auto

lemma sorted_positions:
  assumes "mset ks = mset [0..<n]" and "sorted ks"
  shows "ks = [0..<n]"
proof -
  have "sort [0..<n] = ks" using assms by (intro properties_for_sort) simp_all
  moreover have "sort [0..<n] = [0..<n]" by (intro properties_for_sort) simp_all
  ultimately show ?thesis by simp
qed

lemma list_all2_right_elem:
  "list_all2 Q xs ys \<Longrightarrow> y \<in> set ys \<Longrightarrow> \<exists>x\<in>set xs. Q x y"
  by (induction rule: list_all2_induct) auto

lemma promiseAll_values:
  assumes proc: "\<And>x t r t'. proc x t = Some (r, t') \<Longrightarrow> \<exists>v. r = Inr v \<and> R x v"
    and run: "promiseAll lat proc xs s = Some (out, s')"
  shows "\<exists>vs. out = Inr vs \<and> list_all2 R xs vs"
proof -
  let ?E = "enumerate 0 xs"
  let ?S = "sort_key (\<lambda>ix. lat (fst ix) (snd ix)) ?E"
  let ?Q = "\<lambda>ix jr. fst jr = fst ix \<and> (\<exists>v. snd jr = Inr v \<and> R (snd ix) v)"
  from run obtain settled where st: "settle proc ?S s = Some (settled, s')"
    and o: "out = (case firstRejection (map snd settled) of
                     Some e \<Rightarrow> Inl e
                   | None \<Rightarrow> Inr (fulfilled (map snd (sort_key fst settled))))"
    by (auto simp add: promiseAll_def split: option.splits prod.splits)
  let ?T = "sort_key fst settled"
  have q: "list_all2 ?Q ?S settled"
    using settle_outcomes [of proc R, OF proc st] .
  have fsts: "map fst settled = map fst ?S"
    using q by (induction rule: list_all2_induct) simp_all
  have len: "length ?T = length xs"
    using list_all2_lengthD [OF q] by simp
  have allInr: "\<forall>r\<in>set (map snd settled). \<exists>v. r = Inr v"
    using q by (induction rule: list_all2_induct) auto
  have "mset (map fst ?T) = mset (map fst settled)"
    by (metis mset_map mset_sort)
  also have "\<dots> = mset (map fst ?S)" using fsts by simp
  also have "\<dots> = mset (map fst ?E)" by (metis mset_map mset_sort)
  finally have "mset (map fst ?T) = mset [0..<length xs]" by simp
  moreover have "sorted (map fst ?T)" by (rule sorted_sort_key)
  ultimately have pos: "map fst ?T = [0..<length xs]" by (rule sorted_positions)
  have elem: "\<exists>v. snd jr = Inr v \<and> R (xs ! fst jr) v" if "jr \<in> set settled" for jr
  proof -
    from list_all2_right_elem [OF q that] obtain ix where ix: "ix \<in> set ?S" "?Q ix jr"
      by blast
    then have "ix \<in> set ?E" by simp
    then have "snd ix = xs ! fst ix" by (simp add: in_set_enumerate_eq)
    with ix(2) show ?thesis by auto
  qed
  have "list_all2 (\<lambda>x r. \<exists>v. r = Inr v \<and> R x v) xs (map snd ?T)"
  proof (rule list_all2_all_nthI)
    show "length xs = length (map snd ?T)" using len by simp
  next
    fix k assume k: "k < length xs"
    then have kt: "k < length ?T" using len by simp
    then have "?T ! k \<in> set settled" by (metis nth_mem set_sort)
    from elem [OF this] obtain v where v: "snd (?T ! k) = Inr v" "R (xs ! fst (?T ! k)) v" by blast
    have "fst (?T ! k) = [0..<length xs] ! k" using pos kt by (metis nth_map)
    with k have "fst (?T ! k) = k" by simp
    with v kt show "\<exists>v. map snd ?T ! k = Inr v \<and> R (xs ! k) v" by simp
  qed
  then have "list_all2 R xs (fulfilled (map snd ?T))" by (rule fulfilled_values)
  with o firstRejection_none [OF allInr] show ?thesis by simp
qed

lemma settle_returns:
  assumes proc: "\<And>x t. proc x t \<noteq> None"
  shows "settle proc ixs s \<noteq> None"
proof (induction ixs arbitrary: s)
  case Nil
  then show ?case by simp
next
  case (Cons ix rest)
  obtain r s1 where "proc (snd ix) s = Some (r, s1)"
    using proc [of "snd ix" s] by (cases "proc (snd ix) s") auto
  then show ?case using Cons.IH [of s1] by (auto split: option.splits)
qed

lemma promiseAll_returns:
  assumes proc: "\<And>x t. proc x t \<noteq> None"
  shows "promiseAll lat proc xs s \<noteq> None"
  using settle_returns [of proc, OF proc]
  by (auto simp add: promiseAll_def split: option.splits prod.splits)


lemma js_slice_chunk:
  "0 \<le> i \<Longrightarrow> 0 < c \<Longrightarrow> js_slice xs i (i + c) = take (nat c) (drop (nat i) xs)"
  by (auto simp add: js_slice_def Let_def min_def max_def)

lemma chunkLoop_nonpositive:
  fixes array :: "'a list" and proc :: "'a \<Rightarrow> 'b \<Rightarrow> ((string + 'c) \<times> 'b) option"
  assumes run: "chunkLoop lat array proc conc i res s = Some y"
  shows "conc \<le> 0 \<and> i < int (length array) \<longrightarrow> (\<exists>msg. fst y = Inl msg)"
proof -
  have "conc \<le> 0 \<and> i < int (length array) \<longrightarrow> (\<exists>msg. fst y = Inl msg)"
  proof (rule chunkLoop.raw_induct
      [where P = "\<lambda>lat array proc conc i res s y.
                    conc \<le> 0 \<and> i < int (length array) \<longrightarrow> (\<exists>msg. fst y = Inl msg)", OF _ run])
    fix f :: "('b \<Rightarrow> nat \<Rightarrow> 'a \<Rightarrow> nat) \<Rightarrow> 'a list \<Rightarrow> ('a \<Rightarrow> 'b \<Rightarrow> ((string + 'c) \<times> 'b) option) \<Rightarrow> int \<Rightarrow> int \<Rightarrow> 'c list \<Rightarrow> 'b
       \<Rightarrow> ((string + 'c list) \<times> 'b) option"
    fix lat array proc conc i res s y
    assume IH: "\<And>lat array proc conc i res s y. f lat array proc conc i res s = Some y \<Longrightarrow>
                  conc \<le> 0 \<and> i < int (length array) \<longrightarrow> (\<exists>msg. fst y = Inl msg)"
    assume step: "(if i < int (length array)
        then case promiseAll (lat s) proc (js_slice array i (i + conc)) s of
             None \<Rightarrow> None
             | Some (Inl msg, s1) \<Rightarrow>
                 if msg \<noteq> [] \<and> str_includes msg ''Rate limit''
                 then f lat array proc conc (i + conc) res s1
                 else Some (Inl msg, s1)
             | Some (Inr chunkResults, s1) \<Rightarrow>
                 f lat array proc conc (i + conc) (res @ chunkResults) s1
        else Some (Inr res, s)) = Some y"
    show "conc \<le> 0 \<and> i < int (length array) \<longrightarrow> (\<exists>msg. fst y = Inl msg)"
    proof (intro impI)
      assume a: "conc \<le> 0 \<and> i < int (length array)"
      then have lt: "conc \<le> 0 \<and> i + conc < int (length array)" by simp
      with a step show "\<exists>msg. fst y = Inl msg"
        by (auto split: option.splits sum.splits if_splits dest!: IH)
    qed
  qed
  then show ?thesis .
qed

lemma chunkLoop_values:
  fixes array :: "'a list" and proc :: "'a \<Rightarrow> 'b \<Rightarrow> ((string + 'c) \<times> 'b) option"
  assumes proc: "\<And>x t r t'. proc x t = Some (r, t') \<Longrightarrow> \<exists>v. r = Inr v \<and> R x v"
    and run: "chunkLoop lat array proc conc i res s = Some y"
  shows "0 < conc \<and> 0 \<le> i \<longrightarrow> (\<exists>vs. fst y = Inr (res @ vs) \<and> list_all2 R (drop (nat i) array) vs)"
proof -
  have "(\<forall>x t r t'. proc x t = Some (r, t') \<longrightarrow> (\<exists>v. r = Inr v \<and> R x v)) \<longrightarrow>
        0 < conc \<and> 0 \<le> i \<longrightarrow>
        (\<exists>vs. fst y = Inr (res @ vs) \<and> list_all2 R (drop (nat i) array) vs)"
  proof (rule chunkLoop.raw_induct
      [where P = "\<lambda>lat array proc conc i res s y.
          (\<forall>x t r t'. proc x t = Some (r, t') \<longrightarrow> (\<exists>v. r = Inr v \<and> R x v)) \<longrightarrow>
          0 < conc \<and> 0 \<le> i \<longrightarrow>
          (\<exists>vs. fst y = Inr (res @ vs) \<and> list_all2 R (drop (nat i) array) vs)", OF _ run])
    fix f :: "('b \<Rightarrow> nat \<Rightarrow> 'a \<Rightarrow> nat) \<Rightarrow> 'a list \<Rightarrow> ('a \<Rightarrow> 'b \<Rightarrow> ((string + 'c) \<times> 'b) option) \<Rightarrow> int \<Rightarrow> int \<Rightarrow> 'c list \<Rightarrow> 'b
       \<Rightarrow> ((string + 'c list) \<times> 'b) option"
    fix lat array proc conc i res s y
    assume IH: "\<And>lat array proc conc i res s y. f lat array proc conc i res s = Some y \<Longrightarrow>
          (\<forall>x t r t'. proc x t = Some (r, t') \<longrightarrow> (\<exists>v. r = Inr v \<and> R x v)) \<longrightarrow>
          0 < conc \<and> 0 \<le> i \<longrightarrow>
          (\<exists>vs. fst y = Inr (res @ vs) \<and> list_all2 R (drop (nat i) array) vs)"
    assume step: "(if i < int (length array)
        then case promiseAll (lat s) proc (js_slice array i (i + conc)) s of
             None \<Rightarrow> None
             | Some (Inl msg, s1) \<Rightarrow>
                 if msg \<noteq> [] \<and> str_includes msg ''Rate limit''
                 then f lat array proc conc (i + conc) res s1
                 else Some (Inl msg, s1)
             | Some (Inr chunkResults, s1) \<Rightarrow>
                 f lat array proc conc (i + conc) (res @ chunkResults) s1
        else Some (Inr res, s)) = Some y"
    show "(\<forall>x t r t'. proc x t = Some (r, t') \<longrightarrow> (\<exists>v. r = Inr v \<and> R x v)) \<longrightarrow>
          0 < conc \<and> 0 \<le> i \<longrightarrow>
          (\<exists>vs. fst y = Inr (res @ vs) \<and> list_all2 R (drop (nat i) array) vs)"
    proof (intro impI)
      assume pr: "\<forall>x t r t'. proc x t = Some (r, t') \<longrightarrow> (\<exists>v. r = Inr v \<and> R x v)"
      assume pos: "0 < conc \<and> 0 \<le> i"
      show "\<exists>vs. fst y = Inr (res @ vs) \<and> list_all2 R (drop (nat i) array) vs"
      proof (cases "i < int (length array)")
        case False
        with step have "y = (Inr res, s)" by simp
        moreover from False pos have "drop (nat i) array = []" by simp
        ultimately show ?thesis by simp
      next
        case True
        let ?chunk = "take (nat conc) (drop (nat i) array)"
        from pos have sl: "js_slice array i (i + conc) = ?chunk"
          by (simp add: js_slice_chunk)
        from True step sl obtain out s1 where
          pa: "promiseAll (lat s) proc ?chunk s = Some (out, s1)"
          by (auto split: option.splits)
        from promiseAll_values [of proc R "lat s" ?chunk s out s1] pr pa obtain cr where
          cr: "out = Inr cr" "list_all2 R ?chunk cr" by blast
        from True step sl pa cr have rec: "f lat array proc conc (i + conc) (res @ cr) s1 = Some y"
          by simp
        from IH [OF rec] pr pos obtain vs where
          vs: "fst y = Inr ((res @ cr) @ vs)" "list_all2 R (drop (nat (i + conc)) array) vs"
          by auto
        from pos have "drop (nat (i + conc)) array = drop (nat conc) (drop (nat i) array)"
          by (simp add: nat_add_distrib add.commute)
        with vs(2) cr(2) have "list_all2 R (?chunk @ drop (nat conc) (drop (nat i) array)) (cr @ vs)"
          by (simp add: list_all2_appendI)
        then have "list_all2 R (drop (nat i) array) (cr @ vs)"
          by (simp only: append_take_drop_id)
        with vs(1) show ?thesis by auto
      qed
    qed
  qed
  with proc show ?thesis by blast
qed

lemma processInParallel_values:
  assumes proc: "\<And>x t r t'. proc x t = Some (r, t') \<Longrightarrow> \<exists>v. r = Inr v \<and> R x v"
    and run: "processInParallel lat array proc conc s = Some (Inr vs, s')"
  shows "list_all2 R array vs"
proof (cases "0 < conc")
  case True
  with chunkLoop_values [of proc R lat array conc 0 "[]" s "(Inr vs, s')"] proc run
  show ?thesis by (auto simp add: processInParallel_def)
next
  case False
  with chunkLoop_nonpositive [of lat array proc conc 0 "[]" s "(Inr vs, s')"] run
  have "array = []" by (auto simp add: processInParallel_def)
  with run have "vs = []"
    by (simp add: processInParallel_def chunkLoop.simps [of _ "[]"])
  with \<open>array = []\<close> show ?thesis by simp
qed

lemma chunkLoop_returns:
  assumes proc: "\<And>x t. proc x t \<noteq> None"
    and pos: "0 < conc"
  shows "\<exists>y. chunkLoop lat array proc conc i res s = Some y"
proof (induction "nat (int (length array) - i)" arbitrary: i res s rule: less_induct)
  case less
  show ?case
  proof (cases "i < int (length array)")
    case False
    then show ?thesis by (simp add: chunkLoop.simps [of lat array proc conc i])
  next
    case True
    obtain out s1 where pa: "promiseAll (lat s) proc (js_slice array i (i + conc)) s = Some (out, s1)"
      using promiseAll_returns [of proc "lat s"] proc by (metis surj_pair not_None_eq)
    from True pos have m: "nat (int (length array) - (i + conc)) < nat (int (length array) - i)"
      by simp
    from less [OF m] obtain y1 where
      "chunkLoop lat array proc conc (i + conc) res s1 = Some y1" by blast
    moreover from less [OF m] have "\<And>r. \<exists>y. chunkLoop lat array proc conc (i + conc) r s1 = Some y" .
    ultimately show ?thesis
      using True pa
      by (cases out) (auto simp add: chunkLoop.simps [of lat array proc conc i])
  qed
qed


subsection \<open>Counters and retries\<close>

lemma countResult_counted:
  "counted (countResult rr r) = counted rr + 1 \<and> details (countResult rr r) = details rr
     \<and> total (countResult rr r) = total rr"
  by (simp add: countResult_def counted_def)

lemma foldl_countResult:
  "counted (foldl countResult rr rs) = counted rr + int (length rs)
     \<and> details (foldl countResult rr rs) = details rr
     \<and> total (foldl countResult rr rs) = total rr"
  by (induction rs arbitrary: rr) (simp_all add: countResult_counted)

lemma findIndex_Some:
  "findIndex P xs = Some i \<Longrightarrow> i < length xs \<and> P (xs ! i)"
  by (induction xs arbitrary: i) (auto split: if_splits)

lemma applyRetry_details:
  "map sku (details (applyRetry rr r)) = map sku (details rr) \<and> total (applyRetry rr r) = total rr"
proof (cases "findIndex (\<lambda>x. sku x = sku r) (details rr)")
  case None
  then show ?thesis by (simp add: applyRetry_def)
next
  case (Some i)
  from findIndex_Some [OF Some] have i: "i < length (details rr)" "sku (details rr ! i) = sku r"
    by simp_all
  then have "(map sku (details rr))[i := sku r] = map sku (details rr)"
    by (metis list_update_id nth_map)
  then show ?thesis
    using Some by (simp add: applyRetry_def Let_def map_update)
qed

lemma applyRetry_counted:
  "success r \<longrightarrow> action r = Updated \<or> action r = WouldUpdate \<or> action r = NoChange \<Longrightarrow>
     counted (applyRetry rr r) = counted rr"
  by (auto simp add: applyRetry_def counted_def Let_def split: option.splits)

lemma foldl_applyRetry:
  "\<forall>r\<in>set rs. success r \<longrightarrow> action r = Updated \<or> action r = WouldUpdate \<or> action r = NoChange \<Longrightarrow>
     counted (foldl applyRetry rr rs) = counted rr
     \<and> map sku (details (foldl applyRetry rr rs)) = map sku (details rr)
     \<and> total (foldl applyRetry rr rs) = total rr"
  by (induction rs arbitrary: rr) (simp_all add: applyRetry_counted applyRetry_details)

lemma list_all2_resultFor:
  "list_all2 resultFor sks rs \<Longrightarrow>
     map sku rs = sks
     \<and> (\<forall>r\<in>set rs. success r \<longrightarrow> action r = Updated \<or> action r = WouldUpdate \<or> action r = NoChange)"
  by (induction rule: list_all2_induct) (auto simp add: resultFor_def)

lemma retryLoop_keeps:
  "retryLoop env opts m conc maxR a rem rr s = Some (Inr rr', s') \<Longrightarrow>
     counted rr' = counted rr \<and> map sku (details rr') = map sku (details rr) \<and> total rr' = total rr"
proof (induction env opts m conc maxR a rem rr s rule: retryLoop.induct)
  case (1 env opts m conc maxR a rem rr s)
  show ?case
  proof (cases "rem \<noteq> [] \<and> a \<le> maxR")
    case False
    with "1.prems" show ?thesis by (simp add: retryLoop.simps [of env opts m conc maxR a rem])
  next
    case True
    with "1.prems" obtain b s1 where
      pip: "processInParallel (chunkLatency env) (map sku rem) (syncProcessor env opts m) (max 2 (conc div 2)) s
              = Some (Inr b, s1)"
      and rec: "retryLoop env opts m conc maxR (a + 1) (filter retryable b) (foldl applyRetry rr b) s1
              = Some (Inr rr', s')"
      by (auto simp add: retryLoop.simps [of env opts m conc maxR a rem]
          split: option.splits sum.splits prod.splits)
    have "list_all2 resultFor (map sku rem) b"
      using processInParallel_values [of "syncProcessor env opts m" resultFor, OF _ pip]
        syncProcessor_resultFor by blast
    then have ok: "\<forall>r\<in>set b. success r \<longrightarrow> action r = Updated \<or> action r = WouldUpdate \<or> action r = NoChange"
      using list_all2_resultFor by blast
    from "1.IH" [OF True pip refl refl rec] foldl_applyRetry [OF ok, of rr]
    show ?thesis by simp
  qed
qed

lemma syncMultipleProducts_result:
  assumes "syncMultipleProducts env skus opts s = Some (Inr rr, s')"
  shows "map sku (details rr) = skus \<and> counted rr = total rr \<and> total rr = int (length skus)"
proof -
  obtain conc warnings where lc: "limitConcurrency (requestedConcurrency opts) = (conc, warnings)"
    by (cases "limitConcurrency (requestedConcurrency opts)")
  from assms lc obtain m s2 pr s3 where
    pip: "processInParallel (chunkLatency env) skus (syncProcessor env opts m) conc s2 = Some (Inr pr, s3)"
    and fin: "(let rr0 = foldl countResult ((initialResults skus)\<lparr>details := pr\<rparr>) pr;
                 failedProducts = filter retryable (details rr0)
             in if failedProducts \<noteq> [] \<and> \<not> dryRun opts then
                  retryLoop env opts m conc (case maxRetries opts of None \<Rightarrow> 3 | Some k \<Rightarrow> k)
                    1 failedProducts rr0 s3
                else Some (Inr rr0, s3)) = Some (Inr rr, s')"
    by (auto simp add: syncMultipleProducts_def split: prod.splits sum.splits option.splits)
  have "list_all2 resultFor skus pr"
    using processInParallel_values [of "syncProcessor env opts m" resultFor, OF _ pip]
      syncProcessor_resultFor by blast
  then have sk: "map sku pr = skus" and len: "length pr = length skus"
    using list_all2_resultFor list_all2_lengthD by fastforce+
  let ?rr0 = "foldl countResult ((initialResults skus)\<lparr>details := pr\<rparr>) pr"
  have rr0: "counted ?rr0 = int (length skus)" "details ?rr0 = pr" "total ?rr0 = int (length skus)"
    using foldl_countResult [of "(initialResults skus)\<lparr>details := pr\<rparr>" pr] len
    by (simp_all add: counted_def initialResults_def)
  show ?thesis
  proof (cases "filter retryable (details ?rr0) \<noteq> [] \<and> \<not> dryRun opts")
    case False
    with fin have "rr = ?rr0" by (auto simp add: Let_def split: if_splits)
    with rr0 sk show ?thesis by simp
  next
    case True
    with fin have "retryLoop env opts m conc (case maxRetries opts of None \<Rightarrow> 3 | Some k \<Rightarrow> k)
                    1 (filter retryable (details ?rr0)) ?rr0 s3 = Some (Inr rr, s')"
      by (simp add: Let_def)
    from retryLoop_keeps [OF this] rr0 sk show ?thesis by simp
  qed
qed

lemma syncProcessor_returns: "syncProcessor env opts m sk s \<noteq> None"
  by (auto simp add: syncProcessor_def syncProductStock_def getMercadoLibreProductStockBySKU_def
      Let_def split: prod.splits sum.splits option.splits)

lemma processInParallel_returns:
  "0 < conc \<Longrightarrow> \<exists>y. processInParallel lat skus (syncProcessor env opts m) conc s = Some y"
  unfolding processInParallel_def
  by (rule chunkLoop_returns) (simp_all add: syncProcessor_returns)

lemma retryLoop_returns:
  "\<exists>y. retryLoop env opts m conc maxR a rem rr s = Some y"
proof (induction env opts m conc maxR a rem rr s rule: retryLoop.induct)
  case (1 env opts m conc maxR a rem rr s)
  show ?case
  proof (cases "rem \<noteq> [] \<and> a \<le> maxR")
    case False
    then show ?thesis by (auto simp add: retryLoop.simps [of env opts m conc maxR a rem])
  next
    case True
    obtain out s1 where
      pip: "processInParallel (chunkLatency env) (map sku rem) (syncProcessor env opts m) (max 2 (conc div 2)) s
              = Some (out, s1)"
    proof -
      have "0 < max 2 (conc div 2)" by simp
      from processInParallel_returns [OF this, of "chunkLatency env" "map sku rem" env opts m s]
      show ?thesis using that by auto
    qed
    show ?thesis
    proof (cases out)
      case (Inl msg)
      with True pip show ?thesis by (simp add: retryLoop.simps [of env opts m conc maxR a rem])
    next
      case (Inr b)
      with "1.IH" [OF True pip refl] True pip show ?thesis
        by (simp add: retryLoop.simps [of env opts m conc maxR a rem])
    qed
  qed
qed

lemma syncMultipleProducts_returns:
  assumes load: "\<And>t. loadAllMercadoLibreProducts env t \<noteq> None"
    and pos: "0 < requestedConcurrency opts"
  shows "\<exists>y. syncMultipleProducts env skus opts s = Some y"
proof -
  obtain conc warnings where lc: "limitConcurrency (requestedConcurrency opts) = (conc, warnings)"
    by (cases "limitConcurrency (requestedConcurrency opts)")
  with pos have c: "0 < conc" by (auto simp add: limitConcurrency_def split: if_splits)
  obtain a s1 where au: "remote MlVerifyAuth (mlVerifyAuth env) (s\<lparr>calls := calls s @ warnings\<rparr>) = (a, s1)"
    by (cases "remote MlVerifyAuth (mlVerifyAuth env) (s\<lparr>calls := calls s @ warnings\<rparr>)")
  show ?thesis
  proof (cases a)
    case (Inl msg)
    with lc au show ?thesis by (simp add: syncMultipleProducts_def)
  next
    case (Inr u)
    obtain l s2 where ld: "loadAllMercadoLibreProducts env s1 = Some (l, s2)"
      using load [of s1] by (cases "loadAllMercadoLibreProducts env s1") auto
    show ?thesis
    proof (cases l)
      case (Inl msg)
      with lc au Inr ld show ?thesis by (simp add: syncMultipleProducts_def)
    next
      case m: (Inr m)
      obtain out s3 where pip: "processInParallel (chunkLatency env) skus (syncProcessor env opts m) conc s2 = Some (out, s3)"
        using processInParallel_returns [OF c, of "chunkLatency env" skus env opts m s2] by auto
      show ?thesis
      proof (cases out)
        case (Inl msg)
        with lc au Inr ld m pip show ?thesis by (simp add: syncMultipleProducts_def)
      next
        case pr: (Inr pr)
        with lc au Inr ld m pip show ?thesis
          using retryLoop_returns [of env opts m conc]
          by (simp add: syncMultipleProducts_def Let_def)
      qed
    qed
  qed
qed


subsection \<open>Traces\<close>





lemma issuedOnly_cache: "issuedOnly P s s1 \<Longrightarrow> issuedOnly P s (s1\<lparr>mlProductsCache := m\<rparr>)"
  by (simp add: issuedOnly_def)

























subsection \<open>The examples\<close>

lemma foldl_applyRetry_details:
  "map sku (details (foldl applyRetry rr rs)) = map sku (details rr)"
  by (induction rs arbitrary: rr) (simp_all add: applyRetry_details)





lemma testEnv_load_returns: "loadAllMercadoLibreProducts (testEnv resp ids) t \<noteq> None"
  by (cases "foldl (fetchItem (testEnv resp ids))
               ([], t\<lparr>calls := calls t @ [MlSession, MlSearch 0]\<rparr>) ids")
    (auto simp add: loadAllMercadoLibreProducts_def remote_def testEnv_def testOk_def
      testMlSearch_def pageLoop.simps [of _ 0] split: option.splits)


section \<open>The properties of the specification\<close>










text \<open>
  C4. Whatever the latencies, that is whatever the order in which the items of a chunk
  complete, \<open>processInParallel\<close> with the processor of \<open>syncMultipleProducts\<close> returns
  one result per identifier, in the order of the input; splicing retry results back keeps
  the identifiers of \<open>details\<close> in place; and the \<open>details\<close> of the result that
  \<open>syncMultipleProducts\<close> returns list the identifiers of the input, in its order.
\<close>

theorem C4_details_follow_input_order:
  "(processInParallel lat skus (syncProcessor env opts m) conc s = Some (Inr rs, s1)
      \<longrightarrow> map sku rs = skus \<and> length rs = length skus)
   \<and> map sku (details (foldl applyRetry rr0 retryResults)) = map sku (details rr0)
   \<and> (syncMultipleProducts env skus opts t = Some (Inr rr, t')
      \<longrightarrow> map sku (details rr) = skus \<and> length (details rr) = length skus)"
proof (intro conjI impI)
  assume pip: "processInParallel lat skus (syncProcessor env opts m) conc s = Some (Inr rs, s1)"
  have "list_all2 resultFor skus rs"
    using processInParallel_values [of "syncProcessor env opts m" resultFor, OF _ pip]
      syncProcessor_resultFor by blast
  then show "map sku rs = skus" and "length rs = length skus"
    using list_all2_resultFor list_all2_lengthD by fastforce+
next
  show "map sku (details (foldl applyRetry rr0 retryResults)) = map sku (details rr0)"
    by (rule foldl_applyRetry_details)
next
  assume run: "syncMultipleProducts env skus opts t = Some (Inr rr, t')"
  from syncMultipleProducts_result [OF run] show m: "map sku (details rr) = skus" by simp
  then show "length (details rr) = length skus" by (metis length_map)
qed

text \<open>
  An instance: \<open>B\<close> completes before \<open>A\<close>, takes the rate limit and is retried; the
  details still list \<open>A\<close> first.
\<close>

theorem C4_witness:
  "syncMultipleProducts (testEnv rateLimitThenStock [''MLC1'']) [''A'', ''B''] testOpts (testState 3)
     = Some (Inr \<lparr>total = 2, updated = 1, skipped = 0, errors = 1, noChange = 0,
                  details = [updatedResult ''A'' 7 3,
                             skippedResult ''B'' ''Producto no encontrado en Mercado Libre'']\<rparr>,
             \<lparr>world = \<lparr>erpCalls = 3, sinkQty = 7\<rparr>, mlProductsCache = Some (testIndex 3),
              calls = [MlVerifyAuth, MlSession, MlSearch 0, MlGetItem ''MLC1'', ErpGet ''B'',
                       ErpGet ''A'', MlPut ''MLC1'' 7, ErpGet ''B'']\<rparr>)
   \<and> map sku [updatedResult ''A'' 7 3,
               skippedResult ''B'' ''Producto no encontrado en Mercado Libre''] = [''A'', ''B'']"
proof -
  let ?rr = "\<lparr>total = 2, updated = 1, skipped = 0, errors = 1, noChange = 0,
              details = [updatedResult ''A'' 7 3,
                         skippedResult ''B'' ''Producto no encontrado en Mercado Libre'']\<rparr>"
  let ?t' = "\<lparr>world = \<lparr>erpCalls = 3, sinkQty = 7\<rparr>, mlProductsCache = Some (testIndex 3),
              calls = [MlVerifyAuth, MlSession, MlSearch 0, MlGetItem ''MLC1'', ErpGet ''B'',
                       ErpGet ''A'', MlPut ''MLC1'' 7, ErpGet ''B'']\<rparr>"
  have h: "syncMultipleProducts (testEnv rateLimitThenStock [''MLC1'']) [''A'', ''B''] testOpts
             (testState 3) = Some (Inr ?rr, ?t')"
    by code_simp
  show ?thesis
    using C4_details_follow_input_order
      [where skus = "[''A'', ''B'']" and env = "testEnv rateLimitThenStock [''MLC1'']"
         and opts = testOpts and t = "testState 3" and rr = ?rr and t' = ?t'] h
    by simp
qed

text \<open>
  C5. In the result that \<open>syncMultipleProducts\<close> returns, after the retries,
  \<open>updated + noChange + skipped + errors\<close> equals \<open>total\<close>, the number of identifiers
  requested. The function does return whenever the catalog load ends and the concurrency
  is positive.
\<close>

theorem C5_counters_sum_to_total:
  "(syncMultipleProducts env skus opts s = Some (Inr rr, s')
      \<longrightarrow> updated rr + noChange rr + skipped rr + errors rr = total rr
          \<and> total rr = int (length skus))
   \<and> ((\<forall>t. loadAllMercadoLibreProducts env t \<noteq> None) \<and> 0 < requestedConcurrency opts
      \<longrightarrow> (\<exists>y. syncMultipleProducts env skus opts s = Some y))"
proof (intro conjI impI)
  assume run: "syncMultipleProducts env skus opts s = Some (Inr rr, s')"
  from syncMultipleProducts_result [OF run]
  show "updated rr + noChange rr + skipped rr + errors rr = total rr"
    and "total rr = int (length skus)"
    by (simp_all add: counted_def)
next
  assume "(\<forall>t. loadAllMercadoLibreProducts env t \<noteq> None) \<and> 0 < requestedConcurrency opts"
  then show "\<exists>y. syncMultipleProducts env skus opts s = Some y"
    using syncMultipleProducts_returns [of env opts skus s] by blast
qed

text \<open>
  An instance with a repeated identifier: the retry of the second \<open>A\<close> is spliced over
  the first \<open>A\<close>, and the counters still add up to 3.
\<close>

theorem C5_witness:
  "syncMultipleProducts (testEnv rateLimitThenStock [''MLC1'']) [''A'', ''B'', ''A''] testOpts
     (testState 3)
     = Some (Inr \<lparr>total = 3, updated = 1, skipped = 0, errors = 2, noChange = 0,
                  details = [updatedResult ''A'' 7 3,
                             skippedResult ''B'' ''Producto no encontrado en Mercado Libre'',
                             errorResult ''A''
                               ''Rate limit alcanzado en Manager+ (429). Reduce la concurrencia.'']\<rparr>,
             \<lparr>world = \<lparr>erpCalls = 4, sinkQty = 7\<rparr>, mlProductsCache = Some (testIndex 3),
              calls = [MlVerifyAuth, MlSession, MlSearch 0, MlGetItem ''MLC1'', ErpGet ''A'',
                       ErpGet ''B'', ErpGet ''A'', MlPut ''MLC1'' 7, ErpGet ''A'',
                       MlPut ''MLC1'' 7]\<rparr>)
   \<and> (\<forall>t. loadAllMercadoLibreProducts (testEnv rateLimitThenStock [''MLC1'']) t \<noteq> None)
   \<and> 0 < requestedConcurrency testOpts
   \<and> (1::int) + 0 + 0 + 2 = 3"
proof -
  let ?rr = "\<lparr>total = 3, updated = 1, skipped = 0, errors = 2, noChange = 0,
                  details = [updatedResult ''A'' 7 3,
                             skippedResult ''B'' ''Producto no encontrado en Mercado Libre'',
                             errorResult ''A''
                               ''Rate limit alcanzado en Manager+ (429). Reduce la concurrencia.'']\<rparr>"
  let ?s' = "\<lparr>world = \<lparr>erpCalls = 4, sinkQty = 7\<rparr>, mlProductsCache = Some (testIndex 3),
              calls = [MlVerifyAuth, MlSession, MlSearch 0, MlGetItem ''MLC1'', ErpGet ''A'',
                       ErpGet ''B'', ErpGet ''A'', MlPut ''MLC1'' 7, ErpGet ''A'',
                       MlPut ''MLC1'' 7]\<rparr>"
  have h: "syncMultipleProducts (testEnv rateLimitThenStock [''MLC1'']) [''A'', ''B'', ''A''] testOpts
             (testState 3) = Some (Inr ?rr, ?s')"
    by code_simp
  have l: "\<forall>t. loadAllMercadoLibreProducts (testEnv rateLimitThenStock [''MLC1'']) t \<noteq> None"
    by (simp add: testEnv_load_returns)
  have c: "0 < requestedConcurrency testOpts"
    by (simp add: requestedConcurrency_def testOpts_def)
  show ?thesis
    using C5_counters_sum_to_total
      [of "testEnv rateLimitThenStock [''MLC1'']" "[''A'', ''B'', ''A'']" testOpts "testState 3" ?rr ?s']
      h l c
    by simp
qed

text \<open>
  C6. The property: in a retry, the counters are adjusted whenever a result flips from an
  error to a non-error outcome, a flip to \<open>skipped\<close> included. The code at the input
  below: \<open>A\<close> fails with a rate limit in the first pass and Manager+ answers 404 in the
  retry, so the retried result is \<open>skipped\<close>. The result replaces the original in
  \<open>details\<close>, but \<open>errors\<close> stays 1 and \<open>skipped\<close> stays 0: a \<open>skipped\<close> result
  has \<open>success\<close> false, and the counters are adjusted under \<open>retryResult.success\<close>
  only, so the branch that increments \<open>skipped\<close> is never reached.
\<close>

theorem C6_flip_to_skipped_keeps_counters:
  "syncMultipleProducts (testEnv rateLimitThenGone [''MLC1'']) [''A''] testOpts (testState 3)
     = Some (Inr \<lparr>total = 1, updated = 0, skipped = 0, errors = 1, noChange = 0,
                  details = [skippedResult ''A'' ''Producto no encontrado en Manager+'']\<rparr>,
             \<lparr>world = \<lparr>erpCalls = 2, sinkQty = 3\<rparr>, mlProductsCache = Some (testIndex 3),
              calls = [MlVerifyAuth, MlSession, MlSearch 0, MlGetItem ''MLC1'', ErpGet ''A'',
                       ErpGet ''A'']\<rparr>)"
  by code_simp









text \<open>
  C10. When the catalog load gives a map without any SKU, \<open>syncAllProducts\<close> throws the
  error "No hay publicaciones con SKU configurado ..." in the state the load left, so
  \<open>syncMultipleProducts\<close> is not entered. The load itself does not fail on an empty
  catalog: with no cached map and an empty first page it returns the empty map.
\<close>

theorem C10_empty_index_is_fatal:
  "(loadAllMercadoLibreProducts env s = Some (Inr [], s1)
      \<longrightarrow> syncAllProducts env opts s = Some (Inl noSkuMessage, s1))
   \<and> (mlProductsCache s = None \<and> mlSession env (world s) = (Inr u, w1)
        \<and> mlSearch env 0 w1 = (Inr page, w2) \<and> results page = []
      \<longrightarrow> loadAllMercadoLibreProducts env s
            = Some (Inr [], s\<lparr>world := w2, mlProductsCache := Some [],
                              calls := calls s @ [MlSession, MlSearch 0]\<rparr>))"
  by (auto simp add: syncAllProducts_def loadAllMercadoLibreProducts_def remote_def
      pageLoop.simps [of env 0])


text \<open>An instance: a seller without active listings.\<close>

theorem C10_witness:
  "loadAllMercadoLibreProducts (testEnv steady7 []) (testState 3)
     = Some (Inr [], \<lparr>world = \<lparr>erpCalls = 0, sinkQty = 3\<rparr>, mlProductsCache = Some [],
                      calls = [MlSession, MlSearch 0]\<rparr>)
   \<and> syncAllProducts (testEnv steady7 []) testOpts (testState 3)
     = Some (Inl noSkuMessage, \<lparr>world = \<lparr>erpCalls = 0, sinkQty = 3\<rparr>, mlProductsCache = Some [],
                                calls = [MlSession, MlSearch 0]\<rparr>)"
proof -
  let ?env = "testEnv steady7 []"
  let ?w = "\<lparr>erpCalls = 0, sinkQty = 3\<rparr>"
  let ?page = "\<lparr>results = [], paging_total = 0\<rparr>"
  have h1: "mlProductsCache (testState 3) = None \<and> mlSession ?env (world (testState 3)) = (Inr (), ?w)
        \<and> mlSearch ?env 0 ?w = (Inr ?page, ?w) \<and> results ?page = []"
    by (simp add: test_defs)
  from C10_empty_index_is_fatal [of ?env "testState 3" _ testOpts "()" ?w ?page ?w] h1
  have l: "loadAllMercadoLibreProducts ?env (testState 3)
     = Some (Inr [], \<lparr>world = ?w, mlProductsCache = Some [], calls = [MlSession, MlSearch 0]\<rparr>)"
    by (simp add: testState_def)
  from C10_empty_index_is_fatal [of ?env "testState 3"
      "\<lparr>world = ?w, mlProductsCache = Some [], calls = [MlSession, MlSearch 0]\<rparr>" testOpts] l
  show ?thesis by simp
qed


end
